theory Spec2Isabelle
  imports Main
begin

chapter \<open>The model\<close>

section \<open>JavaScript values used by the ingestion code\<close>

text \<open>
  Errors are values. \<open>RangeError\<close> is what \<open>Date.prototype.toISOString\<close> throws on an
  Invalid Date, \<open>ReferenceError\<close> is the evaluation of an unbound identifier,
  \<open>DbError\<close> is any rejection of \<open>db.query\<close> and \<open>FetchError\<close> any rejection of
  \<open>apiClient.get\<close>.
\<close>

datatype js_error = RangeError | ReferenceError | DbError | FetchError

text \<open>
  A timestamp-valued property of a raw record. \<open>Undefined\<close> is an absent key (the empty
  string behaves the same way in every expression below: it is falsy and
  \<open>new Date('')\<close> is invalid). \<open>Str p\<close> is a non-empty string, carried as the time
  value \<open>p\<close> that \<open>Date.parse\<close> gives it in milliseconds since the epoch, \<open>None\<close>
  being NaN.
\<close>

datatype tsval = Undefined | Null | Num int | Str "int option"

fun truthy :: "tsval \<Rightarrow> bool" where
  "truthy Undefined = False"
| "truthy Null = False"
| "truthy (Num n) = (n \<noteq> 0)"
| "truthy (Str p) = True"

text \<open>The operator \<open>a || b\<close>.\<close>

definition or_js :: "tsval \<Rightarrow> tsval \<Rightarrow> tsval" where
  "or_js a b = (if truthy a then a else b)"

text \<open>
  \<open>new Date(v)\<close>: the time value of the resulting Date, \<open>None\<close> for an Invalid Date.
  \<open>new Date(null)\<close> is the epoch; a number beyond 8.64e15 gives an Invalid Date.
\<close>

fun newDate :: "tsval \<Rightarrow> int option" where
  "newDate Undefined = None"
| "newDate Null = Some 0"
| "newDate (Num n) = (if \<bar>n\<bar> \<le> 8640000000000000 then Some n else None)"
| "newDate (Str p) = p"

text \<open>\<open>a > b\<close> on two Dates: both are converted to numbers, and NaN compares false.\<close>

fun date_gt :: "int option \<Rightarrow> int option \<Rightarrow> bool" where
  "date_gt (Some a) (Some b) = (a > b)"
| "date_gt _ _ = False"

text \<open>\<open>d.toISOString()\<close>: throws a RangeError on an Invalid Date.\<close>

fun toISOString :: "int option \<Rightarrow> js_error + int" where
  "toISOString None = Inl RangeError"
| "toISOString (Some t) = Inr t"

text \<open>
  \<open>iso.split('T')[0]\<close>: the calendar day (UTC) of an ISO string, carried as the number
  of days since 1970-01-01; two such strings are equal exactly when the day numbers are.
\<close>

definition isoDay :: "int \<Rightarrow> int" where
  "isoDay t = t div 86400000"

text \<open>Strings and numbers under \<open>!x\<close> and \<open>x || y\<close>: the empty string and 0 are falsy.\<close>

fun truthy_str :: "string option \<Rightarrow> bool" where
  "truthy_str None = False"
| "truthy_str (Some s) = (s \<noteq> [])"

definition or_str :: "string option \<Rightarrow> string option \<Rightarrow> string option" where
  "or_str a b = (if truthy_str a then a else b)"

fun truthy_num :: "int option \<Rightarrow> bool" where
  "truthy_num None = False"
| "truthy_num (Some n) = (n \<noteq> 0)"

definition or_num :: "int option \<Rightarrow> int option \<Rightarrow> int option" where
  "or_num a b = (if truthy_num a then a else b)"

text \<open>A boolean-valued property of a raw record: absent, JSON null, or a boolean.\<close>

datatype jsbool = BUndefined | BNull | BVal bool

fun truthy_bool :: "jsbool \<Rightarrow> bool" where
  "truthy_bool (BVal b) = b"
| "truthy_bool _ = False"

section \<open>The store\<close>

text \<open>
  One row of \<open>daily_aggregations\<close> (init.sql), keyed by its \<open>date\<close> column. The columns
  default to FALSE and 0.
\<close>

record agg_row =
  has_limitless_data :: bool
  has_bee_data :: bool
  has_weather_data :: bool
  has_mood_data :: bool
  limitless_entry_count :: int
  bee_conversation_count :: int

definition agg_default :: agg_row where
  "agg_default = \<lparr> has_limitless_data = False, has_bee_data = False,
     has_weather_data = False, has_mood_data = False,
     limitless_entry_count = 0, bee_conversation_count = 0 \<rparr>"

section \<open>DataProcessor.updateDailyAggregation\<close>

datatype flag_field = F_limitless | F_bee | F_weather | F_mood

datatype count_field = C_limitless | C_bee

text \<open>The \<open>switch (sourceType)\<close>: the flag column, and the count column when there is one.\<close>

definition agg_fields :: "string \<Rightarrow> (flag_field \<times> count_field option) option" where
  "agg_fields sourceType =
     (if sourceType = ''limitless'' then Some (F_limitless, Some C_limitless)
      else if sourceType = ''bee'' then Some (F_bee, Some C_bee)
      else if sourceType = ''weather'' then Some (F_weather, None)
      else if sourceType = ''mood'' then Some (F_mood, None)
      else None)"

fun set_flag :: "flag_field \<Rightarrow> bool \<Rightarrow> agg_row \<Rightarrow> agg_row" where
  "set_flag F_limitless b r = r\<lparr>has_limitless_data := b\<rparr>"
| "set_flag F_bee b r = r\<lparr>has_bee_data := b\<rparr>"
| "set_flag F_weather b r = r\<lparr>has_weather_data := b\<rparr>"
| "set_flag F_mood b r = r\<lparr>has_mood_data := b\<rparr>"

fun get_count :: "count_field \<Rightarrow> agg_row \<Rightarrow> int" where
  "get_count C_limitless r = limitless_entry_count r"
| "get_count C_bee r = bee_conversation_count r"

fun set_count :: "count_field \<Rightarrow> int \<Rightarrow> agg_row \<Rightarrow> agg_row" where
  "set_count C_limitless n r = r\<lparr>limitless_entry_count := n\<rparr>"
| "set_count C_bee n r = r\<lparr>bee_conversation_count := n\<rparr>"

text \<open>
  The statement that \<open>updateDailyAggregation\<close> builds, as PostgreSQL would run it:
  \<open>INSERT ... ON CONFLICT (date) DO UPDATE SET flag = EXCLUDED.flag,
  count = GREATEST(COALESCE(daily_aggregations.count, 0), EXCLUDED.count)\<close>.
\<close>

definition daily_upsert ::
  "int \<Rightarrow> flag_field \<Rightarrow> count_field option \<Rightarrow> bool \<Rightarrow> int \<Rightarrow> (int \<rightharpoonup> agg_row) \<Rightarrow> (int \<rightharpoonup> agg_row)" where
  "daily_upsert d f c b n tbl =
     (case tbl d of
        None \<Rightarrow> tbl(d \<mapsto> (case c of None \<Rightarrow> set_flag f b agg_default
                              | Some cf \<Rightarrow> set_count cf n (set_flag f b agg_default)))
      | Some r \<Rightarrow> tbl(d \<mapsto> (case c of None \<Rightarrow> set_flag f b r
                                | Some cf \<Rightarrow> set_count cf (max (get_count cf r) n) (set_flag f b r))))"

text \<open>
  DataProcessor.js, line 2: the \<open>require\<close> of DatabaseManager is commented out, and the
  module declares no other \<open>db\<close>. Evaluating \<open>db.query(updateQuery, queryParams)\<close> on
  line 119 therefore raises a ReferenceError before any statement reaches the store.
\<close>

definition DataProcessor_db_query ::
  "int \<Rightarrow> flag_field \<Rightarrow> count_field option \<Rightarrow> bool \<Rightarrow> int \<Rightarrow> (int \<rightharpoonup> agg_row)
     \<Rightarrow> js_error + (int \<rightharpoonup> agg_row)" where
  "DataProcessor_db_query d f c b n tbl = Inl ReferenceError"

text \<open>
  \<open>updateDailyAggregation(date, sourceType, itemCount)\<close> over the table
  \<open>daily_aggregations\<close>. \<open>Inl\<close> is an exception that reaches the caller, \<open>Inr\<close> a normal
  return with the table as it then is. The \<open>try\<close> covers the construction and the
  execution of the query only; the formatting of the date on line 73 is before it.
\<close>

definition updateDailyAggregation ::
  "tsval \<Rightarrow> string option \<Rightarrow> int \<Rightarrow> (int \<rightharpoonup> agg_row) \<Rightarrow> js_error + (int \<rightharpoonup> agg_row)" where
  "updateDailyAggregation date sourceType itemCount tbl =
     (if \<not> truthy date then Inr tbl
      else
        (case sourceType of
           None \<Rightarrow> Inr tbl
         | Some src \<Rightarrow>
             (if src = [] then Inr tbl
              else
                (case toISOString (newDate date) of
                   Inl e \<Rightarrow> Inl e
                 | Inr isoText \<Rightarrow>
                     (case agg_fields src of
                        None \<Rightarrow> Inr tbl
                      | Some (fieldToUpdate, countFieldToUpdate) \<Rightarrow>
                          (case DataProcessor_db_query (isoDay isoText) fieldToUpdate
                                  countFieldToUpdate True
                                  (if itemCount > 0 then itemCount else 0) tbl of
                             Inl e \<Rightarrow> Inr tbl
                           | Inr tbl1 \<Rightarrow> Inr tbl1))))))"

text \<open>The string \<open>'2025-06-01'\<close>: \<open>Date.parse\<close> reads it as midnight UTC of day 20240.\<close>

definition d_2025_06_01 :: tsval where
  "d_2025_06_01 = Str (Some 1748736000000)"

section \<open>The database\<close>

text \<open>
  The normalised objects the connectors build (\<open>entry\<close>, \<open>contentNodeEntry\<close>,
  \<open>utteranceEntry\<close>) once their required members are known to be present. A timestamp
  is the time value of its Date. Database ids (UUIDs) are natural numbers.
\<close>

record entry =
  limitless_id :: string
  title :: "string option"
  markdown_content :: "string option"
  start_time :: int
  end_time :: int
  is_starred :: bool

record contentNodeEntry =
  entry_id :: nat
  parent_id :: "nat option"
  node_type :: string
  content :: "string option"
  node_start_time :: "int option"
  node_end_time :: "int option"
  start_offset_ms :: "int option"
  end_offset_ms :: "int option"
  speaker_name :: "string option"
  speaker_identifier :: "string option"

record utteranceEntry =
  conversation_id :: nat
  bee_utterance_id :: int
  speaker :: "string option"
  utt_text :: "string option"
  start_seconds :: "int option"
  end_seconds :: "int option"
  spoken_at :: int
  is_realtime :: "bool option"

record convoEntry =
  convo_bee_id :: int
  convo_start_time :: int
  convo_end_time :: int
  device_type :: "string option"
  summary :: "string option"
  short_summary :: "string option"
  state :: "string option"
  primary_location :: "string option"

record factEntry =
  fact_bee_id :: int
  fact_content :: "string option"
  is_confirmed :: "bool option"

record todoEntry =
  todo_bee_id :: int
  todo_text :: "string option"
  alarm_at :: "int option"
  completed :: bool

record locationEntry =
  loc_bee_id :: int
  latitude :: int
  longitude :: int
  address :: "string option"
  recorded_at :: int

text \<open>
  The tables of init.sql that the connectors write. A table with a UNIQUE external id is
  a map from that id to the row (with the row's database id where the code reads it
  back); the two child tables are lists of rows in insertion order. \<open>system_metadata\<close>
  maps a key to the instant whose ISO string is stored as its value.
  \<open>queries\<close> counts the statements sent so far, and \<open>faults\<close> holds the numbers of the
  statements that the database rejects (a lost connection, a violated constraint):
  \<open>db.query\<close> rethrows such an error to its caller.
\<close>

record db =
  limitless_entries :: "string \<rightharpoonup> nat \<times> entry"
  limitless_content_nodes :: "(nat \<times> contentNodeEntry) list"
  bee_conversations :: "int \<rightharpoonup> nat \<times> convoEntry"
  bee_utterances :: "utteranceEntry list"
  bee_facts :: "int \<rightharpoonup> factEntry"
  bee_todos :: "int \<rightharpoonup> todoEntry"
  bee_locations :: "int \<rightharpoonup> locationEntry"
  system_metadata :: "string \<rightharpoonup> int"
  daily_aggregations :: "int \<rightharpoonup> agg_row"
  next_id :: nat
  queries :: nat
  faults :: "nat set"

text \<open>Sending one statement: it is counted, and it is rejected when its number is a fault.\<close>

definition rejected :: "db \<Rightarrow> bool" where
  "rejected s = (queries s \<in> faults s)"

definition sent :: "db \<Rightarrow> db" where
  "sent s = s\<lparr>queries := Suc (queries s)\<rparr>"

text \<open>
  \<open>INSERT INTO limitless_entries ... ON CONFLICT (limitless_id) DO UPDATE SET ...
  RETURNING id, (xmax = 0) AS inserted\<close>.
\<close>

definition upsert_limitless_entry :: "entry \<Rightarrow> db \<Rightarrow> (js_error + nat \<times> bool) \<times> db" where
  "upsert_limitless_entry e s =
     (if rejected s then (Inl DbError, sent s)
      else case limitless_entries s (limitless_id e) of
        None \<Rightarrow>
          (Inr (next_id s, True),
           sent (s\<lparr>limitless_entries := (limitless_entries s)(limitless_id e \<mapsto> (next_id s, e)),
                   next_id := Suc (next_id s)\<rparr>))
      | Some (i, old) \<Rightarrow>
          (Inr (i, False),
           sent (s\<lparr>limitless_entries := (limitless_entries s)(limitless_id e \<mapsto> (i, e))\<rparr>)))"

text \<open>\<open>INSERT INTO limitless_content_nodes (...) VALUES (...) RETURNING id\<close>: no conflict clause.\<close>

definition insert_content_node :: "contentNodeEntry \<Rightarrow> db \<Rightarrow> (js_error + nat) \<times> db" where
  "insert_content_node n s =
     (if rejected s then (Inl DbError, sent s)
      else (Inr (next_id s),
            sent (s\<lparr>limitless_content_nodes := limitless_content_nodes s @ [(next_id s, n)],
                    next_id := Suc (next_id s)\<rparr>)))"

text \<open>
  \<open>SELECT value FROM system_metadata WHERE key = $1\<close> and
  \<open>INSERT INTO system_metadata (key, value) VALUES ($1, $2) ON CONFLICT (key) DO UPDATE
  SET value = $2\<close>.
\<close>

definition select_metadata :: "string \<Rightarrow> db \<Rightarrow> (js_error + int option) \<times> db" where
  "select_metadata k s =
     (if rejected s then (Inl DbError, sent s) else (Inr (system_metadata s k), sent s))"

definition upsert_metadata :: "string \<Rightarrow> int \<Rightarrow> db \<Rightarrow> (js_error + unit) \<times> db" where
  "upsert_metadata k v s =
     (if rejected s then (Inl DbError, sent s)
      else (Inr (), sent (s\<lparr>system_metadata := (system_metadata s)(k \<mapsto> v)\<rparr>)))"

section \<open>BaseConnector\<close>

text \<open>The member \<open>dataSources.<name>\<close> of the configuration, as the connectors read it.\<close>

record sourceConfig =
  enabled :: bool
  apiKey :: "string option"
  sub_conversations :: bool
  sub_facts :: bool
  sub_todos :: bool
  sub_locations :: bool

record options =
  forceFullSync :: bool
  opt_cursor :: "string option"
  opt_limit :: "nat option"
  opt_page :: "nat option"
  opt_maxPages :: "nat option"

text \<open>\<open>options.limit || 50\<close> and its like: an absent member and 0 give the default.\<close>

fun or_default :: "nat option \<Rightarrow> nat \<Rightarrow> nat" where
  "or_default None d = d"
| "or_default (Some n) d = (if n = 0 then d else n)"

definition isEnabled :: "sourceConfig \<Rightarrow> bool" where
  "isEnabled cfg = enabled cfg"

definition sync_key :: "string \<Rightarrow> string" where
  "sync_key sourceName = ''last_sync_time_'' @ sourceName"

text \<open>\<open>getLastSyncTime()\<close>: the stored instant as a Date, the epoch when there is no row.\<close>

definition getLastSyncTime :: "string \<Rightarrow> db \<Rightarrow> (js_error + int option) \<times> db" where
  "getLastSyncTime sourceName s =
     (case select_metadata (sync_key sourceName) s of
        (Inl e, s1) \<Rightarrow> (Inl e, s1)
      | (Inr None, s1) \<Rightarrow> (Inr (Some 0), s1)
      | (Inr (Some v), s1) \<Rightarrow> (Inr (Some v), s1))"

text \<open>
  \<open>updateLastSyncTime(syncTime)\<close>: \<open>syncTime.toISOString()\<close> is evaluated for the log
  line first; the statement then overwrites the stored value, whatever it was.
\<close>

definition updateLastSyncTime :: "string \<Rightarrow> int option \<Rightarrow> db \<Rightarrow> (js_error + unit) \<times> db" where
  "updateLastSyncTime sourceName syncTime s =
     (case toISOString syncTime of
        Inl e \<Rightarrow> (Inl e, s)
      | Inr t \<Rightarrow> upsert_metadata (sync_key sourceName) t s)"

record counts =
  newEntries :: nat
  updatedEntries :: nat
  errors :: nat

definition no_counts :: counts where
  "no_counts = \<lparr> newEntries = 0, updatedEntries = 0, errors = 0 \<rparr>"

record sync_result =
  success :: bool
  result_counts :: counts

text \<open>
  \<open>sync(options)\<close>, over the \<open>fetchData\<close> and \<open>processData\<close> of the subclass.
  \<open>fetchData\<close> returns \<open>None\<close> for \<open>null\<close>. An exception of either one is caught and
  reported as \<open>success: false\<close> with no entries and one error.
\<close>

definition sync ::
  "sourceConfig \<Rightarrow> (db \<Rightarrow> (js_error + 'raw option) \<times> db)
     \<Rightarrow> ('raw \<Rightarrow> db \<Rightarrow> (js_error + counts) \<times> db) \<Rightarrow> db \<Rightarrow> sync_result \<times> db" where
  "sync cfg fetchData processData s =
     (if \<not> isEnabled cfg then (\<lparr> success = False, result_counts = no_counts \<rparr>, s)
      else case fetchData s of
        (Inl e, s1) \<Rightarrow> (\<lparr> success = False, result_counts = no_counts\<lparr>errors := 1\<rparr> \<rparr>, s1)
      | (Inr None, s1) \<Rightarrow> (\<lparr> success = True, result_counts = no_counts \<rparr>, s1)
      | (Inr (Some rawData), s1) \<Rightarrow>
          (case processData rawData s1 of
             (Inl e, s2) \<Rightarrow> (\<lparr> success = False, result_counts = no_counts\<lparr>errors := 1\<rparr> \<rparr>, s2)
           | (Inr processResult, s2) \<Rightarrow> (\<lparr> success = True, result_counts = processResult \<rparr>, s2)))"

section \<open>LimitlessConnector\<close>

text \<open>
  The raw records of the Limitless API, with the members the connector reads. A content
  node carries its \<open>children\<close>; an absent or empty \<open>children\<close> is the empty list.
  \<open>l_contents\<close> is \<open>None\<close> when \<open>contents\<close> is absent or not an array.
\<close>

record node_fields =
  nd_node_type :: "string option"
  nd_type :: "string option"
  nd_content :: "string option"
  nd_text :: "string option"
  nd_start_time :: tsval
  nd_end_time :: tsval
  nd_start_offset_ms :: "int option"
  nd_startOffsetMs :: "int option"
  nd_end_offset_ms :: "int option"
  nd_endOffsetMs :: "int option"
  nd_speaker_name :: "string option"
  nd_speakerName :: "string option"
  nd_speaker_identifier :: "string option"
  nd_speakerIdentifier :: "string option"

datatype node = Node node_fields "node list"

record lifelog =
  l_id :: "string option"
  l_title :: "string option"
  l_markdown_content :: "string option"
  l_start_time :: tsval
  l_startTime :: tsval
  l_created_at :: tsval
  l_end_time :: tsval
  l_endTime :: tsval
  l_updated_at :: tsval
  l_is_starred :: jsbool
  l_isStarred :: jsbool
  l_contents :: "node list option"

text \<open>
  The query parameters of a content node: \<open>t ? new Date(t) : null\<close>, and then
  \<open>d ? d.toISOString() : null\<close>, which throws when \<open>t\<close> is present and does not parse.
\<close>

definition node_time :: "tsval \<Rightarrow> js_error + int option" where
  "node_time t =
     (if truthy t then (case toISOString (newDate t) of Inl e \<Rightarrow> Inl e | Inr v \<Rightarrow> Inr (Some v))
      else Inr None)"

text \<open>\<open>node.node_type || node.type || 'unknown'\<close>.\<close>

definition resolve_node_type :: "node_fields \<Rightarrow> string" where
  "resolve_node_type f =
     (case or_str (nd_node_type f) (nd_type f) of
        None \<Rightarrow> ''unknown''
      | Some t \<Rightarrow> (if t = [] then ''unknown'' else t))"

definition contentNodeEntry_of ::
  "node_fields \<Rightarrow> nat \<Rightarrow> nat option \<Rightarrow> int option \<Rightarrow> int option \<Rightarrow> contentNodeEntry" where
  "contentNodeEntry_of f entryId parentNodeDbId st et =
     \<lparr> entry_id = entryId,
       parent_id = parentNodeDbId,
       node_type = resolve_node_type f,
       content = or_str (nd_content f) (nd_text f),
       node_start_time = st,
       node_end_time = et,
       start_offset_ms = or_num (nd_start_offset_ms f) (nd_startOffsetMs f),
       end_offset_ms = or_num (nd_end_offset_ms f) (nd_endOffsetMs f),
       speaker_name = or_str (nd_speaker_name f) (nd_speakerName f),
       speaker_identifier = or_str (nd_speaker_identifier f) (nd_speakerIdentifier f) \<rparr>"

text \<open>
  \<open>processContentNodes(contentNodes, entryId, parentNodeDbId)\<close>: every node is inserted,
  then its children under the id the insert returned. An exception at a node is caught
  there and logged: the node's children are not visited, its siblings are.
\<close>

fun processContentNodes :: "node list \<Rightarrow> nat \<Rightarrow> nat option \<Rightarrow> db \<Rightarrow> db"
  and processContentNode :: "node \<Rightarrow> nat \<Rightarrow> nat option \<Rightarrow> db \<Rightarrow> db" where
  "processContentNodes [] entryId parentNodeDbId s = s"
| "processContentNodes (n # ns) entryId parentNodeDbId s =
     processContentNodes ns entryId parentNodeDbId (processContentNode n entryId parentNodeDbId s)"
| "processContentNode (Node f children) entryId parentNodeDbId s =
     (case node_time (nd_start_time f) of
        Inl e \<Rightarrow> s
      | Inr st \<Rightarrow>
          (case node_time (nd_end_time f) of
             Inl e \<Rightarrow> s
           | Inr et \<Rightarrow>
               (case insert_content_node (contentNodeEntry_of f entryId parentNodeDbId st et) s of
                  (Inl e, s1) \<Rightarrow> s1
                | (Inr contentNodeDbId, s1) \<Rightarrow>
                    (if children \<noteq> []
                     then processContentNodes children entryId (Some contentNodeDbId) s1
                     else s1))))"

text \<open>\<open>lifelog.contents?.find(c => c.type === 'markdown')?.content\<close>.\<close>

fun find_markdown :: "node list \<Rightarrow> string option" where
  "find_markdown [] = None"
| "find_markdown (Node f children # ns) =
     (if nd_type f = Some ''markdown'' then nd_content f else find_markdown ns)"

definition resolve_markdown :: "lifelog \<Rightarrow> string option" where
  "resolve_markdown l =
     or_str (l_markdown_content l)
       (case l_contents l of None \<Rightarrow> None | Some ns \<Rightarrow> find_markdown ns)"

text \<open>The Dates of \<open>entry.start_time\<close> and \<open>entry.end_time\<close>, and \<open>entry.is_starred\<close>.\<close>

definition lifelog_start :: "lifelog \<Rightarrow> int option" where
  "lifelog_start l = newDate (or_js (or_js (l_start_time l) (l_startTime l)) (l_created_at l))"

definition lifelog_end :: "lifelog \<Rightarrow> int option" where
  "lifelog_end l = newDate (or_js (or_js (l_end_time l) (l_endTime l)) (l_updated_at l))"

definition lifelog_starred :: "lifelog \<Rightarrow> bool" where
  "lifelog_starred l = (if truthy_bool (l_is_starred l) then True else truthy_bool (l_isStarred l))"

definition entry_of :: "lifelog \<Rightarrow> string \<Rightarrow> int \<Rightarrow> int \<Rightarrow> entry" where
  "entry_of l lid st et =
     \<lparr> limitless_id = lid, title = l_title l, markdown_content = resolve_markdown l,
       start_time = st, end_time = et, is_starred = lifelog_starred l \<rparr>"

text \<open>
  The body of the \<open>for (const lifelog of lifelogs)\<close> loop of \<open>processData\<close>, on the
  counters and the database. \<open>!entry.start_time\<close> and \<open>!entry.end_time\<close> are false for
  every Date object, so the first test is on the id alone.
\<close>

definition processLifelog :: "lifelog \<Rightarrow> counts \<Rightarrow> db \<Rightarrow> counts \<times> db" where
  "processLifelog l c s =
     (if \<not> truthy_str (l_id l) then (c\<lparr>errors := Suc (errors c)\<rparr>, s)
      else
        (case (l_id l, lifelog_start l, lifelog_end l) of
           (Some lid, Some st, Some et) \<Rightarrow>
             (case upsert_limitless_entry (entry_of l lid st et) s of
                (Inl e, s1) \<Rightarrow> (c\<lparr>errors := Suc (errors c)\<rparr>, s1)
              | (Inr (dbEntryId, inserted), s1) \<Rightarrow>
                  ((if inserted then c\<lparr>newEntries := Suc (newEntries c)\<rparr>
                    else c\<lparr>updatedEntries := Suc (updatedEntries c)\<rparr>),
                   (case l_contents l of
                      None \<Rightarrow> s1
                    | Some ns \<Rightarrow> processContentNodes ns dbEntryId None s1)))
         | _ \<Rightarrow> (c\<lparr>errors := Suc (errors c)\<rparr>, s)))"

fun processLifelogs :: "lifelog list \<Rightarrow> counts \<Rightarrow> db \<Rightarrow> counts \<times> db" where
  "processLifelogs [] c s = (c, s)"
| "processLifelogs (l # ls) c s =
     (case processLifelog l c s of (c1, s1) \<Rightarrow> processLifelogs ls c1 s1)"

text \<open>
  The \<open>reduce\<close> that finds the latest
  \<open>new Date(item.updated_at || item.created_at || item.end_time || 0)\<close>, from the epoch.
\<close>

definition item_time :: "lifelog \<Rightarrow> int option" where
  "item_time item =
     newDate (or_js (or_js (or_js (l_updated_at item) (l_created_at item)) (l_end_time item)) (Num 0))"

definition latestEntryTime :: "lifelog list \<Rightarrow> int option" where
  "latestEntryTime ls =
     foldl (\<lambda>latest item. if date_gt (item_time item) latest then item_time item else latest)
       (Some 0) ls"

text \<open>
  \<open>xs.map(f)\<close> for an \<open>f\<close> that may throw: the first exception ends the map.
\<close>

fun mapE :: "('a \<Rightarrow> js_error + 'b) \<Rightarrow> 'a list \<Rightarrow> js_error + 'b list" where
  "mapE f [] = Inr []"
| "mapE f (x # xs) =
     (case f x of
        Inl e \<Rightarrow> Inl e
      | Inr y \<Rightarrow> (case mapE f xs of Inl e \<Rightarrow> Inl e | Inr ys \<Rightarrow> Inr (y # ys)))"

text \<open>
  \<open>new Date(l.start_time || l.startTime || l.created_at).toISOString().split('T')[0]\<close>.
\<close>

definition lifelog_day :: "lifelog \<Rightarrow> js_error + int" where
  "lifelog_day l =
     (case toISOString (lifelog_start l) of Inl e \<Rightarrow> Inl e | Inr t \<Rightarrow> Inr (isoDay t))"

text \<open>The members of a \<open>Set\<close> built from a list, in the order of their first insertion.\<close>

definition set_members :: "'a list \<Rightarrow> 'a list" where
  "set_members xs = rev (remdups (rev xs))"

text \<open>The string \<open>'YYYY-MM-DD'\<close> of a day: non-empty, and parsed as midnight UTC of that day.\<close>

definition day_string :: "int \<Rightarrow> tsval" where
  "day_string d = Str (Some (d * 86400000))"

text \<open>
  The loop over the affected dates: the number of records of the batch on that day is
  handed to \<open>DataProcessor.updateDailyAggregation\<close>, whose exception would end the loop.
\<close>

fun rollup_days ::
  "string \<Rightarrow> int list \<Rightarrow> int list \<Rightarrow> (int \<rightharpoonup> agg_row) \<Rightarrow> (js_error + unit) \<times> (int \<rightharpoonup> agg_row)" where
  "rollup_days sourceName days [] tbl = (Inr (), tbl)"
| "rollup_days sourceName days (d # ds) tbl =
     (if length (filter (\<lambda>x. x = d) days) > 0
      then (case updateDailyAggregation (day_string d) (Some sourceName)
                   (int (length (filter (\<lambda>x. x = d) days))) tbl of
              Inl e \<Rightarrow> (Inl e, tbl)
            | Inr tbl1 \<Rightarrow> rollup_days sourceName days ds tbl1)
      else rollup_days sourceName days ds tbl)"

text \<open>
  \<open>processData(lifelogs)\<close>. After the loop, and only when some record was inserted or
  updated: the watermark is set to the latest item time when that is after the epoch,
  then the affected dates are computed from every record of the batch and rolled up.
  Neither step is inside a \<open>try\<close>.
\<close>

definition processData :: "lifelog list \<Rightarrow> db \<Rightarrow> (js_error + counts) \<times> db" where
  "processData lifelogs s =
     (if lifelogs = [] then (Inr no_counts, s)
      else
        (case processLifelogs lifelogs no_counts s of
           (c, s1) \<Rightarrow>
             (if newEntries c > 0 \<or> updatedEntries c > 0 then
                (case (if date_gt (latestEntryTime lifelogs) (Some 0)
                       then updateLastSyncTime ''limitless'' (latestEntryTime lifelogs) s1
                       else (Inr (), s1)) of
                   (Inl e, s2) \<Rightarrow> (Inl e, s2)
                 | (Inr u, s2) \<Rightarrow>
                     (case mapE lifelog_day lifelogs of
                        Inl e \<Rightarrow> (Inl e, s2)
                      | Inr days \<Rightarrow>
                          (case rollup_days ''limitless'' days (set_members days)
                                  (daily_aggregations s2) of
                             (Inl e, tbl) \<Rightarrow> (Inl e, s2\<lparr>daily_aggregations := tbl\<rparr>)
                           | (Inr u2, tbl) \<Rightarrow> (Inr c, s2\<lparr>daily_aggregations := tbl\<rparr>))))
              else (Inr c, s1))))"

text \<open>
  The Limitless API, as the connector sees it: the response to \<open>GET /lifelogs\<close> for a
  cursor is an exception, or the lifelogs of the page (the empty list when there are
  none) and the next cursor.
\<close>

type_synonym limitless_api = "string option \<Rightarrow> js_error + lifelog list \<times> string option"

text \<open>
  The \<open>do ... while (cursor)\<close> loop of \<open>fetchData\<close>. The second component of the result
  is the list of the cursors requested, in order: one element for every request made.
\<close>

function fetch_lifelogs ::
  "limitless_api \<Rightarrow> nat \<Rightarrow> nat \<Rightarrow> string option \<Rightarrow> nat \<Rightarrow> lifelog list \<Rightarrow> string option list
     \<Rightarrow> (js_error + lifelog list) \<times> string option list" where
  "fetch_lifelogs api limit maxPages cursor page allLifelogs reqs =
     (case api cursor of
        Inl e \<Rightarrow> (Inl e, reqs @ [cursor])
      | Inr (lifelogs, nextCursor) \<Rightarrow>
          (if lifelogs \<noteq> [] then
             (if \<not> truthy_str nextCursor \<and> length lifelogs < limit
              then (Inr (allLifelogs @ lifelogs), reqs @ [cursor])
              else if Suc page > maxPages
              then (Inr (allLifelogs @ lifelogs), reqs @ [cursor])
              else if truthy_str nextCursor
              then fetch_lifelogs api limit maxPages nextCursor (Suc page)
                     (allLifelogs @ lifelogs) (reqs @ [cursor])
              else (Inr (allLifelogs @ lifelogs), reqs @ [cursor]))
           else (Inr allLifelogs, reqs @ [cursor])))"
  by pat_completeness auto
termination
  by (relation "measure (\<lambda>(api, limit, maxPages, cursor, page, allLifelogs, reqs). Suc maxPages - page)")
     auto

declare fetch_lifelogs.simps [simp del]

text \<open>
  \<open>fetchData(options)\<close>: \<open>null\<close> when the source is disabled or has no API key. The last
  sync time is read (unless a full sync is forced) and printed, not sent to the API.
  An exception of the loop is logged and thrown again.
\<close>

definition fetchData ::
  "sourceConfig \<Rightarrow> limitless_api \<Rightarrow> options \<Rightarrow> db \<Rightarrow> (js_error + lifelog list option) \<times> db" where
  "fetchData cfg api opts s =
     (if \<not> isEnabled cfg then (Inr None, s)
      else if \<not> truthy_str (apiKey cfg) then (Inr None, s)
      else
        (case (if forceFullSync opts then (Inr (Some 0), s) else getLastSyncTime ''limitless'' s) of
           (Inl e, s1) \<Rightarrow> (Inl e, s1)
         | (Inr lastSyncTime, s1) \<Rightarrow>
             (case toISOString lastSyncTime of
                Inl e \<Rightarrow> (Inl e, s1)
              | Inr t \<Rightarrow>
                  (case fst (fetch_lifelogs api (or_default (opt_limit opts) 50)
                               (or_default (opt_maxPages opts) 10) (opt_cursor opts) 1 [] []) of
                     Inl e \<Rightarrow> (Inl e, s1)
                   | Inr allLifelogs \<Rightarrow> (Inr (Some allLifelogs), s1)))))"

definition limitless_sync ::
  "sourceConfig \<Rightarrow> limitless_api \<Rightarrow> options \<Rightarrow> db \<Rightarrow> sync_result \<times> db" where
  "limitless_sync cfg api opts s = sync cfg (fetchData cfg api opts) processData s"

section \<open>BeeConnector\<close>

text \<open>
  The raw records of the Bee API, with the members the connector reads. Ids are numbers
  (the columns are BIGINT); \<open>None\<close> is an absent id, and 0 is falsy like it. Coordinates
  are carried as integers: the code tests them for presence only.
  \<open>c_primary_location\<close> is the JSON text of the member when it is present.
\<close>

record utterance =
  u_id :: "int option"
  u_utterance_id :: "int option"
  u_speaker :: "string option"
  u_text :: "string option"
  u_start_seconds :: "int option"
  u_startOffsetSeconds :: "int option"
  u_end_seconds :: "int option"
  u_endOffsetSeconds :: "int option"
  u_spoken_at :: tsval
  u_timestamp :: tsval
  u_is_realtime :: jsbool

record conversation =
  c_id :: "int option"
  c_start_time :: tsval
  c_startTime :: tsval
  c_end_time :: tsval
  c_endTime :: tsval
  c_updated_at :: tsval
  c_device_type :: "string option"
  c_deviceType :: "string option"
  c_summary :: "string option"
  c_short_summary :: "string option"
  c_shortSummary :: "string option"
  c_state :: "string option"
  c_primary_location :: "string option"
  c_transcriptions :: "utterance list option"
  c_utterances :: "utterance list option"

record bee_fact =
  f_id :: "int option"
  f_content :: "string option"
  f_is_confirmed :: jsbool
  f_updated_at :: tsval
  f_created_at :: tsval

record todo =
  t_id :: "int option"
  t_text :: "string option"
  t_alarm_at :: tsval
  t_completed :: jsbool
  t_updated_at :: tsval
  t_created_at :: tsval

record location =
  lc_id :: "int option"
  lc_latitude :: "int option"
  lc_longitude :: "int option"
  lc_address :: "string option"
  lc_recorded_at :: tsval
  lc_timestamp :: tsval
  lc_created_at :: tsval

record bee_data =
  conversations :: "conversation list"
  facts :: "bee_fact list"
  todos :: "todo list"
  locations :: "location list"

text \<open>
  \<open>INSERT INTO bee_conversations ... ON CONFLICT (bee_id) DO UPDATE SET ...
  RETURNING id, (xmax = 0) AS inserted\<close>, and the same statement for facts, todos and
  locations (which return \<open>inserted\<close> only).
\<close>

definition upsert_bee_conversation :: "convoEntry \<Rightarrow> db \<Rightarrow> (js_error + nat \<times> bool) \<times> db" where
  "upsert_bee_conversation e s =
     (if rejected s then (Inl DbError, sent s)
      else case bee_conversations s (convo_bee_id e) of
        None \<Rightarrow>
          (Inr (next_id s, True),
           sent (s\<lparr>bee_conversations := (bee_conversations s)(convo_bee_id e \<mapsto> (next_id s, e)),
                   next_id := Suc (next_id s)\<rparr>))
      | Some (i, old) \<Rightarrow>
          (Inr (i, False),
           sent (s\<lparr>bee_conversations := (bee_conversations s)(convo_bee_id e \<mapsto> (i, e))\<rparr>)))"

definition upsert_bee_fact :: "factEntry \<Rightarrow> db \<Rightarrow> (js_error + bool) \<times> db" where
  "upsert_bee_fact e s =
     (if rejected s then (Inl DbError, sent s)
      else (Inr (bee_facts s (fact_bee_id e) = None),
            sent (s\<lparr>bee_facts := (bee_facts s)(fact_bee_id e \<mapsto> e)\<rparr>)))"

definition upsert_bee_todo :: "todoEntry \<Rightarrow> db \<Rightarrow> (js_error + bool) \<times> db" where
  "upsert_bee_todo e s =
     (if rejected s then (Inl DbError, sent s)
      else (Inr (bee_todos s (todo_bee_id e) = None),
            sent (s\<lparr>bee_todos := (bee_todos s)(todo_bee_id e \<mapsto> e)\<rparr>)))"

definition upsert_bee_location :: "locationEntry \<Rightarrow> db \<Rightarrow> (js_error + bool) \<times> db" where
  "upsert_bee_location e s =
     (if rejected s then (Inl DbError, sent s)
      else (Inr (bee_locations s (loc_bee_id e) = None),
            sent (s\<lparr>bee_locations := (bee_locations s)(loc_bee_id e \<mapsto> e)\<rparr>)))"

text \<open>
  \<open>INSERT INTO bee_utterances ... ON CONFLICT (conversation_id, bee_utterance_id) DO
  NOTHING\<close>, over the UNIQUE constraint of init.sql on that pair.
\<close>

definition same_utterance :: "utteranceEntry \<Rightarrow> utteranceEntry \<Rightarrow> bool" where
  "same_utterance u r =
     (conversation_id r = conversation_id u \<and> bee_utterance_id r = bee_utterance_id u)"

definition insert_utterance :: "utteranceEntry \<Rightarrow> db \<Rightarrow> (js_error + unit) \<times> db" where
  "insert_utterance u s =
     (if rejected s then (Inl DbError, sent s)
      else if list_ex (same_utterance u) (bee_utterances s) then (Inr (), sent s)
      else (Inr (), sent (s\<lparr>bee_utterances := bee_utterances s @ [u]\<rparr>)))"

text \<open>
  \<open>_getTimestamp(item, fields)\<close>, on the values of the fields in their order: the Date
  of the first truthy one, the epoch when there is none.
\<close>

fun getTimestamp :: "tsval list \<Rightarrow> int option" where
  "getTimestamp [] = Some 0"
| "getTimestamp (v # vs) = (if truthy v then newDate v else getTimestamp vs)"

text \<open>An id under \<open>!id\<close>: \<open>None\<close> when it is absent or 0, which the code rejects.\<close>

fun truthy_id :: "int option \<Rightarrow> int option" where
  "truthy_id None = None"
| "truthy_id (Some n) = (if n = 0 then None else Some n)"

text \<open>\<open>x !== undefined ? x : true\<close>: \<open>null\<close> stays \<open>null\<close> (\<open>None\<close>).\<close>

fun default_true :: "jsbool \<Rightarrow> bool option" where
  "default_true BUndefined = Some True"
| "default_true BNull = None"
| "default_true (BVal b) = Some b"

definition utteranceEntry_of :: "utterance \<Rightarrow> nat \<Rightarrow> int \<Rightarrow> int \<Rightarrow> utteranceEntry" where
  "utteranceEntry_of utt dbConvoId uid at =
     \<lparr> conversation_id = dbConvoId,
       bee_utterance_id = uid,
       speaker = u_speaker utt,
       utt_text = u_text utt,
       start_seconds = or_num (u_start_seconds utt) (u_startOffsetSeconds utt),
       end_seconds = or_num (u_end_seconds utt) (u_endOffsetSeconds utt),
       spoken_at = at,
       is_realtime = default_true (u_is_realtime utt) \<rparr>"

text \<open>
  The body of the loop of \<open>_processUtterances\<close>. A skipped utterance and a failed
  insert both leave the loop running; nothing is counted.
\<close>

definition processUtterance :: "nat \<Rightarrow> utterance \<Rightarrow> db \<Rightarrow> db" where
  "processUtterance dbConvoId utt s =
     (case (truthy_id (or_num (u_id utt) (u_utterance_id utt)),
            newDate (or_js (u_spoken_at utt) (u_timestamp utt))) of
        (Some uid, Some at) \<Rightarrow>
          snd (insert_utterance (utteranceEntry_of utt dbConvoId uid at) s)
      | _ \<Rightarrow> s)"

definition processUtterances :: "utterance list \<Rightarrow> nat \<Rightarrow> db \<Rightarrow> db" where
  "processUtterances utterances dbConvoId s = fold (processUtterance dbConvoId) utterances s"

text \<open>
  A \<open>for\<close> loop over the items of one kind, on the counters, the latest item timestamp
  seen so far and the database.
\<close>

type_synonym stats = "counts \<times> int option"

fun for_items ::
  "('a \<Rightarrow> stats \<Rightarrow> db \<Rightarrow> stats \<times> db) \<Rightarrow> 'a list \<Rightarrow> stats \<Rightarrow> db \<Rightarrow> stats \<times> db" where
  "for_items body [] st s = (st, s)"
| "for_items body (x # xs) st s = (case body x st s of (st1, s1) \<Rightarrow> for_items body xs st1 s1)"

definition later :: "int option \<Rightarrow> int option \<Rightarrow> int option" where
  "later a b = (if date_gt a b then a else b)"

text \<open>The \<open>entry\<close> objects of the four kinds.\<close>

definition convoEntry_of :: "conversation \<Rightarrow> int \<Rightarrow> int \<Rightarrow> int \<Rightarrow> convoEntry" where
  "convoEntry_of convo bid st_time en_time =
     \<lparr> convo_bee_id = bid,
       convo_start_time = st_time,
       convo_end_time = en_time,
       device_type = or_str (c_device_type convo) (c_deviceType convo),
       summary = c_summary convo,
       short_summary = or_str (c_short_summary convo) (c_shortSummary convo),
       state = c_state convo,
       primary_location = c_primary_location convo \<rparr>"

definition factEntry_of :: "bee_fact \<Rightarrow> int \<Rightarrow> factEntry" where
  "factEntry_of fct bid =
     \<lparr> fact_bee_id = bid, fact_content = f_content fct,
       is_confirmed = default_true (f_is_confirmed fct) \<rparr>"

definition todoEntry_of :: "todo \<Rightarrow> int \<Rightarrow> int option \<Rightarrow> todoEntry" where
  "todoEntry_of todo bid alarm =
     \<lparr> todo_bee_id = bid, todo_text = t_text todo, alarm_at = alarm,
       completed = truthy_bool (t_completed todo) \<rparr>"

definition locationEntry_of :: "location \<Rightarrow> int \<Rightarrow> int \<Rightarrow> int \<Rightarrow> int \<Rightarrow> locationEntry" where
  "locationEntry_of loc bid lat lon at =
     \<lparr> loc_bee_id = bid, latitude = lat, longitude = lon,
       address = lc_address loc, recorded_at = at \<rparr>"

text \<open>
  The four loop bodies. The item's timestamp is folded into the latest one before the
  item is validated.
\<close>

definition processConversation :: "conversation \<Rightarrow> stats \<Rightarrow> db \<Rightarrow> stats \<times> db" where
  "processConversation convo st s =
     (case st of
        (c, latestItemTimestamp) \<Rightarrow>
          (let latest = later (getTimestamp [c_updated_at convo, c_end_time convo, c_start_time convo])
                          latestItemTimestamp
           in case (truthy_id (c_id convo),
                    newDate (or_js (c_start_time convo) (c_startTime convo)),
                    newDate (or_js (c_end_time convo) (c_endTime convo))) of
                (Some bid, Some st_time, Some en_time) \<Rightarrow>
                     (case upsert_bee_conversation (convoEntry_of convo bid st_time en_time) s of
                        (Inl e, s1) \<Rightarrow> ((c\<lparr>errors := Suc (errors c)\<rparr>, latest), s1)
                      | (Inr (dbConvoId, inserted), s1) \<Rightarrow>
                          (((if inserted then c\<lparr>newEntries := Suc (newEntries c)\<rparr>
                             else c\<lparr>updatedEntries := Suc (updatedEntries c)\<rparr>), latest),
                           (case c_transcriptions convo of
                              Some us \<Rightarrow> processUtterances us dbConvoId s1
                            | None \<Rightarrow>
                                (case c_utterances convo of
                                   Some us \<Rightarrow> processUtterances us dbConvoId s1
                                 | None \<Rightarrow> s1))))
              | _ \<Rightarrow> ((c\<lparr>errors := Suc (errors c)\<rparr>, latest), s)))"

definition processFact :: "bee_fact \<Rightarrow> stats \<Rightarrow> db \<Rightarrow> stats \<times> db" where
  "processFact fct st s =
     (case st of
        (c, latestItemTimestamp) \<Rightarrow>
          (let latest = later (getTimestamp [f_updated_at fct, f_created_at fct])
                          latestItemTimestamp
           in case truthy_id (f_id fct) of
                None \<Rightarrow> ((c\<lparr>errors := Suc (errors c)\<rparr>, latest), s)
              | Some bid \<Rightarrow>
                     (case upsert_bee_fact (factEntry_of fct bid) s of
                        (Inl e, s1) \<Rightarrow> ((c\<lparr>errors := Suc (errors c)\<rparr>, latest), s1)
                      | (Inr inserted, s1) \<Rightarrow>
                          (((if inserted then c\<lparr>newEntries := Suc (newEntries c)\<rparr>
                             else c\<lparr>updatedEntries := Suc (updatedEntries c)\<rparr>), latest), s1))))"

definition processTodo :: "todo \<Rightarrow> stats \<Rightarrow> db \<Rightarrow> stats \<times> db" where
  "processTodo todo st s =
     (case st of
        (c, latestItemTimestamp) \<Rightarrow>
          (let latest = later (getTimestamp [t_updated_at todo, t_created_at todo, t_alarm_at todo])
                          latestItemTimestamp
           in case truthy_id (t_id todo) of
                None \<Rightarrow> ((c\<lparr>errors := Suc (errors c)\<rparr>, latest), s)
              | Some bid \<Rightarrow>
                  (case node_time (t_alarm_at todo) of
                     Inl e \<Rightarrow> ((c\<lparr>errors := Suc (errors c)\<rparr>, latest), s)
                   | Inr alarm \<Rightarrow>
                       (case upsert_bee_todo (todoEntry_of todo bid alarm) s of
                          (Inl e, s1) \<Rightarrow> ((c\<lparr>errors := Suc (errors c)\<rparr>, latest), s1)
                        | (Inr inserted, s1) \<Rightarrow>
                            (((if inserted then c\<lparr>newEntries := Suc (newEntries c)\<rparr>
                               else c\<lparr>updatedEntries := Suc (updatedEntries c)\<rparr>), latest), s1)))))"

definition processLocation :: "location \<Rightarrow> stats \<Rightarrow> db \<Rightarrow> stats \<times> db" where
  "processLocation loc st s =
     (case st of
        (c, latestItemTimestamp) \<Rightarrow>
          (let recordedAt = newDate (or_js (or_js (lc_recorded_at loc) (lc_timestamp loc))
                                       (lc_created_at loc));
               latest = later recordedAt latestItemTimestamp
           in case (truthy_id (lc_id loc), lc_latitude loc, lc_longitude loc, recordedAt) of
                (Some bid, Some lat, Some lon, Some at) \<Rightarrow>
                  (case upsert_bee_location (locationEntry_of loc bid lat lon at) s of
                     (Inl e, s1) \<Rightarrow> ((c\<lparr>errors := Suc (errors c)\<rparr>, latest), s1)
                   | (Inr inserted, s1) \<Rightarrow>
                       (((if inserted then c\<lparr>newEntries := Suc (newEntries c)\<rparr>
                          else c\<lparr>updatedEntries := Suc (updatedEntries c)\<rparr>), latest), s1))
              | _ \<Rightarrow> ((c\<lparr>errors := Suc (errors c)\<rparr>, latest), s)))"

text \<open>
  \<open>_processConversations(conversations, currentLatestTimestamp)\<close> and its three
  siblings: the loop from no counts and the epoch, and the later of the latest item
  timestamp and the current one.
\<close>

definition process_items ::
  "('a \<Rightarrow> stats \<Rightarrow> db \<Rightarrow> stats \<times> db) \<Rightarrow> 'a list \<Rightarrow> int option \<Rightarrow> db \<Rightarrow> stats \<times> db" where
  "process_items body items currentLatestTimestamp s =
     (case for_items body items (no_counts, Some 0) s of
        ((c, latestItemTimestamp), s1) \<Rightarrow> ((c, later latestItemTimestamp currentLatestTimestamp), s1))"

definition processConversations :: "conversation list \<Rightarrow> int option \<Rightarrow> db \<Rightarrow> stats \<times> db" where
  "processConversations = process_items processConversation"

definition processFacts :: "bee_fact list \<Rightarrow> int option \<Rightarrow> db \<Rightarrow> stats \<times> db" where
  "processFacts = process_items processFact"

definition processTodos :: "todo list \<Rightarrow> int option \<Rightarrow> db \<Rightarrow> stats \<times> db" where
  "processTodos = process_items processTodo"

definition processLocations :: "location list \<Rightarrow> int option \<Rightarrow> db \<Rightarrow> stats \<times> db" where
  "processLocations = process_items processLocation"

text \<open>
  One of the four blocks of \<open>processData\<close>: when there are items of the kind, they are
  processed, their counts are added to the totals and \<open>latestSyncTimestamp\<close> moves to
  their latest timestamp when that is later.
\<close>

definition add_counts :: "counts \<Rightarrow> counts \<Rightarrow> counts" where
  "add_counts a b =
     \<lparr> newEntries = newEntries a + newEntries b,
       updatedEntries = updatedEntries a + updatedEntries b,
       errors = errors a + errors b \<rparr>"

definition process_kind ::
  "('a list \<Rightarrow> int option \<Rightarrow> db \<Rightarrow> stats \<times> db) \<Rightarrow> 'a list \<Rightarrow> stats \<times> db \<Rightarrow> stats \<times> db" where
  "process_kind f items acc =
     (case acc of
        ((totals, latestSyncTimestamp), s) \<Rightarrow>
          (if items \<noteq> [] then
             (case f items latestSyncTimestamp s of
                ((c, latestTimestamp), s1) \<Rightarrow>
                  ((add_counts totals c, later latestTimestamp latestSyncTimestamp), s1))
           else acc))"

text \<open>\<open>new Date(c.start_time || c.startTime).toISOString().split('T')[0]\<close>.\<close>

definition convo_day :: "conversation \<Rightarrow> js_error + int" where
  "convo_day c =
     (case toISOString (newDate (or_js (c_start_time c) (c_startTime c))) of
        Inl e \<Rightarrow> Inl e
      | Inr t \<Rightarrow> Inr (isoDay t))"

text \<open>
  \<open>processData(data)\<close>. The watermark is written only when the latest timestamp is
  after the stored one. The affected dates are computed from every conversation of the
  batch; that step and the rollup are not inside a \<open>try\<close>.
\<close>

definition bee_processData :: "bee_data \<Rightarrow> db \<Rightarrow> (js_error + counts) \<times> db" where
  "bee_processData data s =
     (case getLastSyncTime ''bee'' s of
        (Inl e, s0) \<Rightarrow> (Inl e, s0)
      | (Inr t0, s0) \<Rightarrow>
          (case process_kind processLocations (locations data)
                  (process_kind processTodos (todos data)
                    (process_kind processFacts (facts data)
                      (process_kind processConversations (conversations data)
                        ((no_counts, t0), s0)))) of
             ((totals, latestSyncTimestamp), s1) \<Rightarrow>
               (case getLastSyncTime ''bee'' s1 of
                  (Inl e, s2) \<Rightarrow> (Inl e, s2)
                | (Inr stored, s2) \<Rightarrow>
                    (case (if date_gt latestSyncTimestamp stored
                           then updateLastSyncTime ''bee'' latestSyncTimestamp s2
                           else (Inr (), s2)) of
                       (Inl e, s3) \<Rightarrow> (Inl e, s3)
                     | (Inr u, s3) \<Rightarrow>
                         (case mapE convo_day (conversations data) of
                            Inl e \<Rightarrow> (Inl e, s3)
                          | Inr days \<Rightarrow>
                              (case rollup_days ''bee'' days (set_members days)
                                      (daily_aggregations s3) of
                                 (Inl e, tbl) \<Rightarrow> (Inl e, s3\<lparr>daily_aggregations := tbl\<rparr>)
                               | (Inr u2, tbl) \<Rightarrow> (Inr totals, s3\<lparr>daily_aggregations := tbl\<rparr>)))))))"

text \<open>
  The Bee API: the response to a page request of one of the four endpoints is an
  exception or the items of the page; \<open>GET /conversations/<id>\<close> is an exception
  or the detailed conversation.
\<close>

record bee_api =
  api_conversations :: "nat \<Rightarrow> js_error + conversation list"
  api_conversation :: "int option \<Rightarrow> js_error + conversation"
  api_facts :: "nat \<Rightarrow> js_error + bee_fact list"
  api_todos :: "nat \<Rightarrow> js_error + todo list"
  api_locations :: "nat \<Rightarrow> js_error + location list"

text \<open>
  The \<open>while (keepFetching)\<close> loop of \<open>_fetchPaginatedData\<close>. An exception of the request
  is caught: it ends the loop, and what was accumulated is returned as usual. The second
  component is the list of the pages requested, in order.
\<close>

function fetch_pages ::
  "(nat \<Rightarrow> js_error + 'a list) \<Rightarrow> nat \<Rightarrow> nat \<Rightarrow> nat \<Rightarrow> 'a list \<Rightarrow> nat list \<Rightarrow> 'a list \<times> nat list" where
  "fetch_pages get limit maxPages page allData reqs =
     (case get page of
        Inl e \<Rightarrow> (allData, reqs @ [page])
      | Inr responseData \<Rightarrow>
          (if responseData \<noteq> [] then
             (if length responseData < limit then (allData @ responseData, reqs @ [page])
              else if Suc page > maxPages then (allData @ responseData, reqs @ [page])
              else fetch_pages get limit maxPages (Suc page) (allData @ responseData)
                     (reqs @ [page]))
           else (allData, reqs @ [page])))"
  by pat_completeness auto
termination
  by (relation "measure (\<lambda>(get, limit, maxPages, page, allData, reqs). Suc maxPages - page)") auto

declare fetch_pages.simps [simp del]

definition fetchPaginatedData :: "(nat \<Rightarrow> js_error + 'a list) \<Rightarrow> options \<Rightarrow> 'a list \<times> nat list" where
  "fetchPaginatedData get opts =
     fetch_pages get (or_default (opt_limit opts) 50) (or_default (opt_maxPages opts) 10)
       (or_default (opt_page opts) 1) [] []"

text \<open>
  The detail request for a fetched conversation: on an exception the basic record is
  kept.
\<close>

definition fetch_detail :: "bee_api \<Rightarrow> conversation \<Rightarrow> conversation" where
  "fetch_detail api convo =
     (case api_conversation api (c_id convo) of Inl e \<Rightarrow> convo | Inr d \<Rightarrow> d)"

text \<open>
  \<open>fetchData(options)\<close>: every enabled kind is fetched page by page. No request can make
  it throw: the page loop and the detail loop catch their exceptions.
\<close>

definition bee_fetchData ::
  "sourceConfig \<Rightarrow> bee_api \<Rightarrow> options \<Rightarrow> db \<Rightarrow> (js_error + bee_data option) \<times> db" where
  "bee_fetchData cfg api opts s =
     (if \<not> isEnabled cfg then (Inr None, s)
      else if \<not> truthy_str (apiKey cfg) then (Inr None, s)
      else
        (case (if forceFullSync opts then (Inr (Some 0), s) else getLastSyncTime ''bee'' s) of
           (Inl e, s1) \<Rightarrow> (Inl e, s1)
         | (Inr lastSyncTime, s1) \<Rightarrow>
             (case toISOString lastSyncTime of
                Inl e \<Rightarrow> (Inl e, s1)
              | Inr t \<Rightarrow>
                  (Inr (Some
                     \<lparr> conversations =
                         (if sub_conversations cfg
                          then map (fetch_detail api)
                                 (fst (fetchPaginatedData (api_conversations api) opts))
                          else []),
                       facts =
                         (if sub_facts cfg then fst (fetchPaginatedData (api_facts api) opts)
                          else []),
                       todos =
                         (if sub_todos cfg then fst (fetchPaginatedData (api_todos api) opts)
                          else []),
                       locations =
                         (if sub_locations cfg
                          then fst (fetchPaginatedData (api_locations api) opts)
                          else []) \<rparr>), s1))))"

definition bee_sync :: "sourceConfig \<Rightarrow> bee_api \<Rightarrow> options \<Rightarrow> db \<Rightarrow> sync_result \<times> db" where
  "bee_sync cfg api opts s = sync cfg (bee_fetchData cfg api opts) bee_processData s"

section \<open>Sample inputs\<close>

text \<open>
  Concrete inputs for the scenarios and the instances below: a source configuration that
  is enabled, the default options, an empty database that rejects nothing, one valid
  lifelog, and a few APIs.
\<close>

definition cfg_on :: sourceConfig where
  "cfg_on = \<lparr> enabled = True, apiKey = Some ''key'', sub_conversations = True,
     sub_facts = True, sub_todos = True, sub_locations = True \<rparr>"

definition no_options :: options where
  "no_options = \<lparr> forceFullSync = False, opt_cursor = None, opt_limit = None,
     opt_page = None, opt_maxPages = None \<rparr>"

definition db0 :: db where
  "db0 = \<lparr> limitless_entries = Map.empty, limitless_content_nodes = [],
     bee_conversations = Map.empty, bee_utterances = [], bee_facts = Map.empty,
     bee_todos = Map.empty, bee_locations = Map.empty, system_metadata = Map.empty,
     daily_aggregations = Map.empty, next_id = 0, queries = 0, faults = {} \<rparr>"

text \<open>A lifelog of 2025-06-01, from 10:00 to 11:00 UTC, last modified at 11:00.\<close>

definition lifelog_a :: lifelog where
  "lifelog_a = \<lparr> l_id = Some ''a'', l_title = Some ''Morning'', l_markdown_content = None,
     l_start_time = Str (Some 1748772000000), l_startTime = Undefined, l_created_at = Undefined,
     l_end_time = Str (Some 1748775600000), l_endTime = Undefined,
     l_updated_at = Str (Some 1748775600000),
     l_is_starred = BUndefined, l_isStarred = BUndefined, l_contents = None \<rparr>"




text \<open>APIs whose first page is full and whose second request fails.\<close>

definition limitless_second_page_fails :: limitless_api where
  "limitless_second_page_fails c =
     (if c = None then Inr (replicate 50 lifelog_a, Some ''c1'') else Inl FetchError)"

definition bee_second_page_fails :: "nat \<Rightarrow> js_error + unit list" where
  "bee_second_page_fails p = (if p = 1 then Inr (replicate 50 ()) else Inl FetchError)"

text \<open>
  A database whose Limitless watermark is 2025-06-02T00:00Z, a lifelog with an id and no
  timestamp at all, and the API that returns given lifelogs as its only page.
\<close>

definition db_synced :: db where
  "db_synced = db0\<lparr>system_metadata := [''last_sync_time_limitless'' \<mapsto> 1748822400000]\<rparr>"

definition lifelog_b :: lifelog where
  "lifelog_b = \<lparr> l_id = Some ''b'', l_title = None, l_markdown_content = None,
     l_start_time = Undefined, l_startTime = Undefined, l_created_at = Undefined,
     l_end_time = Undefined, l_endTime = Undefined, l_updated_at = Undefined,
     l_is_starred = BUndefined, l_isStarred = BUndefined, l_contents = None \<rparr>"

definition single_page :: "lifelog list \<Rightarrow> limitless_api" where
  "single_page ls c = (if c = None then Inr (ls, None) else Inr ([], None))"

text \<open>The number of records that a result accounts for.\<close>

definition total_count :: "counts \<Rightarrow> nat" where
  "total_count c = newEntries c + updatedEntries c + errors c"






section \<open>Notions used in the statements about child records\<close>








definition fact_1 :: bee_fact where
  "fact_1 = \<lparr> f_id = Some 1, f_content = Some ''Ada likes tea'',
     f_is_confirmed = BUndefined, f_updated_at = Undefined,
     f_created_at = Str (Some 1748779200000) \<rparr>"

text \<open>
  A Bee API with one fact on the first page of facts, a failing second request for
  facts and nothing else; and options with a page limit of 1.
\<close>

definition bee_facts_second_page_fails :: bee_api where
  "bee_facts_second_page_fails =
     \<lparr> api_conversations = (\<lambda>p. Inr []),
       api_conversation = (\<lambda>i. Inl FetchError),
       api_facts = (\<lambda>p. if p = 1 then Inr [fact_1] else Inl FetchError),
       api_todos = (\<lambda>p. Inr []),
       api_locations = (\<lambda>p. Inr []) \<rparr>"

definition one_per_page :: options where
  "one_per_page = no_options\<lparr> opt_limit := Some 1 \<rparr>"

text \<open>The watermark of a source as \<open>getLastSyncTime\<close> reads it: the epoch when none is stored.\<close>

definition watermark :: "string \<Rightarrow> db \<Rightarrow> int" where
  "watermark sourceName s =
     (case system_metadata s (sync_key sourceName) of None \<Rightarrow> 0 | Some v \<Rightarrow> v)"

chapter \<open>Verification\<close>

section \<open>The daily rollup\<close>

lemma isoDay_2025_06_01: "isoDay 1748736000000 = 20240"
  by (simp add: isoDay_def)

text \<open>
  The statement in the source, had it been run, follows the merge rule: the stored count
  after it is the larger of the stored and the observed one.
\<close>

lemma daily_upsert_takes_larger:
  "tbl d = Some r \<Longrightarrow>
   map_option (get_count cf) (daily_upsert d f (Some cf) True n tbl d) = Some (max (get_count cf r) n)"
  by (cases cf; cases f) (simp_all add: daily_upsert_def)

text \<open>
  C3. Two rollups for (2025-06-01, limitless) with counts 3 and then 1 should leave the
  stored count at 3. On the code, each call returns normally and leaves the table as it
  was: starting from an empty table there is no row for the day after both calls, so no
  count 3 is stored. The two statements that the calls build would, if they were run,
  leave the count at 3.
\<close>

theorem C3_rollup_is_never_stored:
  "updateDailyAggregation d_2025_06_01 (Some ''limitless'') 3 Map.empty = Inr Map.empty
   \<and> updateDailyAggregation d_2025_06_01 (Some ''limitless'') 1 Map.empty = Inr Map.empty
   \<and> map_option limitless_entry_count (Map.empty 20240) = None
   \<and> map_option limitless_entry_count
        (daily_upsert 20240 F_limitless (Some C_limitless) True 1
           (daily_upsert 20240 F_limitless (Some C_limitless) True 3 Map.empty) 20240) = Some 3"
  by (simp add: updateDailyAggregation_def d_2025_06_01_def agg_fields_def
      DataProcessor_db_query_def daily_upsert_def agg_default_def)

text \<open>
  C10, as stated: no input makes \<open>updateDailyAggregation\<close> throw. It fails for a date
  that is present and does not parse: \<open>new Date(date).toISOString()\<close> is outside the
  \<open>try\<close> and its RangeError reaches the caller.
\<close>

theorem C10_invalid_date_throws:
  "updateDailyAggregation (Str None) (Some ''limitless'') 3 Map.empty = Inl RangeError"
  by (simp add: updateDailyAggregation_def)

text \<open>
  C10, amended: whenever the date is missing or denotes a valid date, the call returns
  normally whatever the source type and the count are (a missing or unknown source type
  and the failure of the store update are absorbed), and the table is as before.
\<close>

theorem C10_rollup_returns_normally:
  "\<not> truthy date \<or> newDate date \<noteq> None \<Longrightarrow>
   updateDailyAggregation date sourceType itemCount tbl = Inr tbl"
  by (cases "newDate date")
     (auto simp: updateDailyAggregation_def DataProcessor_db_query_def
           split: option.splits prod.splits)

theorem C10_rollup_returns_normally_witness:
  "newDate d_2025_06_01 = Some 1748736000000
   \<and> updateDailyAggregation d_2025_06_01 (Some ''unknown-source'') 5 Map.empty = Inr Map.empty"
proof -
  have h: "\<not> truthy d_2025_06_01 \<or> newDate d_2025_06_01 \<noteq> None"
    by (simp add: d_2025_06_01_def)
  show ?thesis
    using h C10_rollup_returns_normally [OF h, of "Some ''unknown-source''" 5 Map.empty]
    by (simp add: d_2025_06_01_def)
qed

section \<open>The pagination loops\<close>


lemma fetch_pages_error:
  "get page = Inl e \<Longrightarrow>
   fetch_pages get limit maxPages page allData reqs = (allData, reqs @ [page])"
  by (subst fetch_pages.simps) simp



lemma fetch_lifelogs_error:
  "api cursor = Inl e \<Longrightarrow>
   fetch_lifelogs api limit maxPages cursor page allLifelogs reqs = (Inl e, reqs @ [cursor])"
  by (subst fetch_lifelogs.simps) simp







section \<open>Fetch errors\<close>

lemma fetchData_reads_only:
  "limitless_entries (snd (fetchData cfg api opts s)) = limitless_entries s
   \<and> limitless_content_nodes (snd (fetchData cfg api opts s)) = limitless_content_nodes s
   \<and> system_metadata (snd (fetchData cfg api opts s)) = system_metadata s"
  by (simp add: fetchData_def getLastSyncTime_def select_metadata_def sent_def
      split: sum.splits option.splits prod.splits)

lemma bee_fetchData_no_fetch_error:
  "fst (bee_fetchData cfg api opts s) \<noteq> Inl FetchError"
  by (auto simp: bee_fetchData_def getLastSyncTime_def select_metadata_def
      split: sum.splits option.splits prod.splits if_splits)

text \<open>For the page loop of the Bee connector a failing request is the end of the data.\<close>

lemma fetch_pages_error_as_end:
  "get page = Inl e \<Longrightarrow>
   fetch_pages get limit maxPages page allData reqs
     = fetch_pages (get(page := Inr [])) limit maxPages page allData reqs"
  by (subst (1 2) fetch_pages.simps) simp

lemma bee_sync_after_fetch_error:
  "fst (bee_sync cfg_on bee_facts_second_page_fails one_per_page db0)
     = \<lparr> success = True, result_counts = \<lparr> newEntries = 1, updatedEntries = 0, errors = 0 \<rparr> \<rparr>
   \<and> map_option fact_content
        (bee_facts (snd (bee_sync cfg_on bee_facts_second_page_fails one_per_page db0)) 1)
     = Some (Some ''Ada likes tea'')"
  by (simp add: bee_sync_def sync_def bee_fetchData_def isEnabled_def cfg_on_def
      one_per_page_def no_options_def getLastSyncTime_def select_metadata_def
      fetchPaginatedData_def fetch_pages.simps bee_facts_second_page_fails_def
      bee_processData_def process_kind_def processFacts_def process_items_def
      processFact_def fact_1_def factEntry_of_def upsert_bee_fact_def later_def
      add_counts_def updateLastSyncTime_def upsert_metadata_def sync_key_def
      set_members_def or_js_def or_str_def db0_def rejected_def sent_def no_counts_def)

lemma limitless_sync_fetch_error:
  "fst (fetchData cfg api opts s) = Inl e \<Longrightarrow>
   limitless_sync cfg api opts s
     = (\<lparr> success = False, result_counts = no_counts\<lparr>errors := 1\<rparr> \<rparr>,
        snd (fetchData cfg api opts s))"
  by (cases "fetchData cfg api opts s")
     (auto simp: limitless_sync_def sync_def fetchData_def split: if_splits)

text \<open>
  C7, as stated: after a fetch error the records already fetched are returned, processed
  and persisted. In the Limitless connector they are not: with a full first page and a
  failing second request, \<open>fetchData\<close> throws, \<open>sync\<close> reports a failure with one error
  and no entry, and no lifelog reaches the store.
\<close>

theorem C7_limitless_fetch_error_is_fatal:
  "fst (fetchData cfg_on limitless_second_page_fails no_options db0) = Inl FetchError
   \<and> fst (limitless_sync cfg_on limitless_second_page_fails no_options db0)
       = \<lparr> success = False, result_counts = \<lparr> newEntries = 0, updatedEntries = 0, errors = 1 \<rparr> \<rparr>
   \<and> limitless_entries (snd (limitless_sync cfg_on limitless_second_page_fails no_options db0)) ''a''
       = None"
  by (simp add: limitless_sync_def sync_def fetchData_def isEnabled_def cfg_on_def
      no_options_def db0_def getLastSyncTime_def select_metadata_def rejected_def sent_def
      fetch_lifelogs.simps limitless_second_page_fails_def no_counts_def)

text \<open>
  C7, amended. A fetch error stops the walker. In the Bee connector the loop returns
  what it has accumulated as its ordinary result, exactly as if the failing page were
  the empty page that ends the data, and \<open>fetchData\<close> never throws the error: the
  records are processed and persisted in that run (as the fact of the sample API is,
  with \<open>success: true\<close> and no error counted), and the error is only logged. In the
  Limitless connector the error is thrown again: the accumulated records are dropped,
  \<open>sync\<close> reports \<open>success: false\<close> with one error, and the entries, the content nodes
  and the watermark are as they were.
\<close>

theorem C7_fetch_error:
  "(get page = Inl e \<longrightarrow>
      fetch_pages get limit maxPages page allData reqs = (allData, reqs @ [page])
      \<and> fetch_pages get limit maxPages page allData reqs
          = fetch_pages (get(page := Inr [])) limit maxPages page allData reqs)
   \<and> fst (bee_fetchData cfg bapi opts s) \<noteq> Inl FetchError
   \<and> fst (bee_sync cfg_on bee_facts_second_page_fails one_per_page db0)
       = \<lparr> success = True,
           result_counts = \<lparr> newEntries = 1, updatedEntries = 0, errors = 0 \<rparr> \<rparr>
   \<and> map_option fact_content
        (bee_facts (snd (bee_sync cfg_on bee_facts_second_page_fails one_per_page db0)) 1)
       = Some (Some ''Ada likes tea'')
   \<and> (api cursor = Inl e \<longrightarrow>
        fetch_lifelogs api limit maxPages cursor page allLifelogs creqs
          = (Inl e, creqs @ [cursor]))
   \<and> (fst (fetchData cfg api opts s) = Inl e \<longrightarrow>
        limitless_sync cfg api opts s
          = (\<lparr> success = False, result_counts = no_counts\<lparr>errors := 1\<rparr> \<rparr>,
             snd (fetchData cfg api opts s)))
   \<and> limitless_entries (snd (fetchData cfg api opts s)) = limitless_entries s
   \<and> limitless_content_nodes (snd (fetchData cfg api opts s)) = limitless_content_nodes s
   \<and> system_metadata (snd (fetchData cfg api opts s)) = system_metadata s"
  using fetch_pages_error [of get page e limit maxPages allData reqs]
    fetch_pages_error_as_end [of get page e limit maxPages allData reqs]
    bee_sync_after_fetch_error
    bee_fetchData_no_fetch_error [of cfg bapi opts s]
    fetch_lifelogs_error [of api cursor e limit maxPages page allLifelogs creqs]
    limitless_sync_fetch_error [of cfg api opts s e]
    fetchData_reads_only [of cfg api opts s]
  by blast

theorem C7_fetch_error_witness:
  "bee_second_page_fails 2 = Inl FetchError
   \<and> fetch_pages bee_second_page_fails 50 10 2 (replicate 50 ()) [1] = (replicate 50 (), [1, 2])
   \<and> limitless_second_page_fails (Some ''c1'') = Inl FetchError
   \<and> fetch_lifelogs limitless_second_page_fails 50 10 (Some ''c1'') 2 (replicate 50 lifelog_a)
        [None] = (Inl FetchError, [None, Some ''c1''])"
proof -
  have b: "bee_second_page_fails 2 = Inl FetchError"
    by (simp add: bee_second_page_fails_def)
  have l: "limitless_second_page_fails (Some ''c1'') = Inl FetchError"
    by (simp add: limitless_second_page_fails_def)
  show ?thesis
    using b l
      C7_fetch_error [where get = bee_second_page_fails and page = 2 and e = FetchError
        and limit = 50 and maxPages = 10 and allData = "replicate 50 ()" and reqs = "[1]"
        and api = limitless_second_page_fails and cursor = "Some ''c1''"
        and allLifelogs = "replicate 50 lifelog_a" and creqs = "[None]"]
    by simp
qed

section \<open>Evaluation of the sample inputs\<close>

lemmas common_eval =
  or_js_def or_str_def db0_def rejected_def sent_def no_counts_def

lemmas limitless_eval =
  processData_def processLifelog_def lifelog_start_def lifelog_end_def
  lifelog_a_def lifelog_b_def db_synced_def upsert_limitless_entry_def
  entry_of_def latestEntryTime_def item_time_def
  updateLastSyncTime_def upsert_metadata_def sync_key_def lifelog_day_def isoDay_def
  set_members_def updateDailyAggregation_def day_string_def agg_fields_def
  DataProcessor_db_query_def resolve_markdown_def lifelog_starred_def

lemmas limitless_sync_eval =
  limitless_sync_def sync_def fetchData_def isEnabled_def cfg_on_def no_options_def
  getLastSyncTime_def select_metadata_def fetch_lifelogs.simps single_page_def

section \<open>The watermark\<close>

text \<open>
  C1. The stored watermark of a source should never move back. For the Limitless source
  it does: the stored watermark is 2025-06-02T00:00Z, the sync fetches one lifelog last
  modified on 2025-06-01 at 11:00Z, the run succeeds with one new entry, and the stored
  watermark is then 2025-06-01T11:00Z.
\<close>

theorem C1_limitless_watermark_moves_back:
  "system_metadata db_synced (sync_key ''limitless'') = Some 1748822400000
   \<and> fst (limitless_sync cfg_on (single_page [lifelog_a]) no_options db_synced)
       = \<lparr> success = True,
           result_counts = \<lparr> newEntries = 1, updatedEntries = 0, errors = 0 \<rparr> \<rparr>
   \<and> system_metadata (snd (limitless_sync cfg_on (single_page [lifelog_a]) no_options db_synced))
         (sync_key ''limitless'') = Some 1748775600000"
  by (simp add: limitless_sync_eval common_eval limitless_eval)

section \<open>The counts of a batch\<close>

text \<open>Every iteration of a processing loop adds one to exactly one of the three counters.\<close>

lemma processLifelog_counts_one:
  "total_count (fst (processLifelog l c s)) = Suc (total_count c)"
  by (simp add: processLifelog_def total_count_def split: option.splits sum.splits prod.splits)

lemma processLifelogs_counts_all:
  "total_count (fst (processLifelogs ls c s)) = total_count c + length ls"
proof (induction ls arbitrary: c s)
  case Nil
  show ?case by simp
next
  case (Cons l ls)
  obtain c1 s1 where step: "processLifelog l c s = (c1, s1)"
    by (cases "processLifelog l c s")
  have "total_count c1 = Suc (total_count c)"
    using processLifelog_counts_one [of l c s] step by simp
  with Cons.IH [of c1 s1] step show ?case by simp
qed

lemma for_items_counts_all:
  assumes "\<And>x st s. total_count (fst (fst (body x st s))) = Suc (total_count (fst st))"
  shows "total_count (fst (fst (for_items body xs st s))) = total_count (fst st) + length xs"
proof (induction xs arbitrary: st s)
  case Nil
  show ?case by simp
next
  case (Cons x xs)
  obtain st1 s1 where step: "body x st s = (st1, s1)"
    by (cases "body x st s")
  have "total_count (fst st1) = Suc (total_count (fst st))"
    using assms [of x st s] step by simp
  with Cons.IH [of st1 s1] step show ?case by simp
qed

lemma processConversation_counts_one:
  "total_count (fst (fst (processConversation x st s))) = Suc (total_count (fst st))"
  by (cases st)
     (simp add: processConversation_def total_count_def Let_def
        split: option.splits sum.splits prod.splits)

lemma processFact_counts_one:
  "total_count (fst (fst (processFact x st s))) = Suc (total_count (fst st))"
  by (cases st)
     (simp add: processFact_def total_count_def Let_def
        split: option.splits sum.splits prod.splits)

lemma processTodo_counts_one:
  "total_count (fst (fst (processTodo x st s))) = Suc (total_count (fst st))"
  by (cases st)
     (simp add: processTodo_def total_count_def Let_def
        split: option.splits sum.splits prod.splits)

lemma processLocation_counts_one:
  "total_count (fst (fst (processLocation x st s))) = Suc (total_count (fst st))"
  by (cases st)
     (simp add: processLocation_def total_count_def Let_def
        split: option.splits sum.splits prod.splits)

text \<open>
  C5. The counts reported for a batch should add up to the number of its records. For
  the batch of a valid lifelog and a lifelog without timestamps, the loop of
  \<open>processData\<close> counts one new entry and one error; the computation of the affected
  dates then throws on the second record, \<open>processData\<close> ends with that exception, and
  \<open>sync\<close> reports no entry and one error for the two records.
\<close>

theorem C5_limitless_counts_lost:
  "fst (processLifelogs [lifelog_a, lifelog_b] no_counts db0)
     = \<lparr> newEntries = 1, updatedEntries = 0, errors = 1 \<rparr>
   \<and> fst (processData [lifelog_a, lifelog_b] db0) = Inl RangeError
   \<and> fst (limitless_sync cfg_on (single_page [lifelog_a, lifelog_b]) no_options db0)
       = \<lparr> success = False,
           result_counts = \<lparr> newEntries = 0, updatedEntries = 0, errors = 1 \<rparr> \<rparr>
   \<and> total_count \<lparr> newEntries = 0, updatedEntries = 0, errors = 1 \<rparr>
       \<noteq> length [lifelog_a, lifelog_b]"
  by (simp add: limitless_sync_eval common_eval limitless_eval total_count_def)

section \<open>What the processing loops leave alone\<close>



lemma processUtterance_frame:
  "bee_conversations (processUtterance d u s) = bee_conversations s
   \<and> faults (processUtterance d u s) = faults s
   \<and> system_metadata (processUtterance d u s) = system_metadata s"
  by (simp add: processUtterance_def insert_utterance_def sent_def split: option.splits)

lemma processUtterances_frame:
  "bee_conversations (processUtterances us d s) = bee_conversations s
   \<and> faults (processUtterances us d s) = faults s
   \<and> system_metadata (processUtterances us d s) = system_metadata s"
  unfolding processUtterances_def
  by (induction us arbitrary: s) (simp_all add: processUtterance_frame)

section \<open>Rejected records\<close>

text \<open>
  The Date of a member is invalid exactly when the member is absent, is a string that
  does not parse, or is a number out of the range of time values. A \<open>null\<close> is not
  among them: its Date is the epoch.
\<close>

lemma newDate_invalid_iff:
  "newDate v = None \<longleftrightarrow>
     v = Undefined \<or> v = Str None \<or> (\<exists>n. v = Num n \<and> \<bar>n\<bar> > 8640000000000000)"
  by (cases v) auto








section \<open>Two records with the same external id\<close>








section \<open>Child records\<close>


















section \<open>Defaults of omitted members\<close>




section \<open>The watermark in the Bee connector and after a fetch error\<close>

text \<open>
  The Bee connector writes the watermark only when the latest timestamp is after the
  stored one: whatever the batch and the faults of the database, the stored watermark
  of the source does not move back. The processing loops themselves never write it.
\<close>

lemma for_items_metadata:
  assumes "\<And>x st s. system_metadata (snd (body x st s)) = system_metadata s"
  shows "system_metadata (snd (for_items body xs st s)) = system_metadata s"
proof (induction xs arbitrary: st s)
  case Nil
  show ?case by simp
next
  case (Cons x xs)
  obtain st1 s1 where step: "body x st s = (st1, s1)"
    by (cases "body x st s")
  with assms [of x st s] have "system_metadata s1 = system_metadata s" by simp
  with Cons.IH [of st1 s1] step show ?case by simp
qed

lemma processConversation_metadata:
  "system_metadata (snd (processConversation x st s)) = system_metadata s"
  by (cases st)
     (simp add: processConversation_def upsert_bee_conversation_def sent_def Let_def
        processUtterances_frame split: option.splits sum.splits prod.splits)

lemma processFact_metadata:
  "system_metadata (snd (processFact x st s)) = system_metadata s"
  by (cases st)
     (simp add: processFact_def upsert_bee_fact_def sent_def Let_def
        split: option.splits sum.splits prod.splits)

lemma processTodo_metadata:
  "system_metadata (snd (processTodo x st s)) = system_metadata s"
  by (cases st)
     (simp add: processTodo_def upsert_bee_todo_def sent_def Let_def
        split: option.splits sum.splits prod.splits)

lemma processLocation_metadata:
  "system_metadata (snd (processLocation x st s)) = system_metadata s"
  by (cases st)
     (simp add: processLocation_def upsert_bee_location_def sent_def Let_def
        split: option.splits sum.splits prod.splits)

lemma process_kind_metadata:
  assumes "\<And>x st s. system_metadata (snd (body x st s)) = system_metadata s"
  shows "system_metadata (snd (process_kind (process_items body) items acc))
           = system_metadata (snd acc)"
  using for_items_metadata [of body items "(no_counts, Some 0)" "snd acc", OF assms]
  by (cases acc) (auto simp: process_kind_def process_items_def split: prod.splits)

lemma bee_loops_metadata:
  "system_metadata
     (snd (process_kind processLocations ls
        (process_kind processTodos ts
          (process_kind processFacts fs
            (process_kind processConversations cs acc)))))
   = system_metadata (snd acc)"
  by (simp add: processLocations_def processTodos_def processFacts_def processConversations_def
      process_kind_metadata processLocation_metadata processTodo_metadata processFact_metadata
      processConversation_metadata)

lemma bee_processData_watermark:
  "watermark ''bee'' s \<le> watermark ''bee'' (snd (bee_processData data s))"
proof -
  obtain r0 s0 where g0: "getLastSyncTime ''bee'' s = (r0, s0)"
    by (cases "getLastSyncTime ''bee'' s")
  have m0: "system_metadata s0 = system_metadata s"
    using g0 by (auto simp: getLastSyncTime_def select_metadata_def sent_def
        split: if_splits option.splits)
  show ?thesis
  proof (cases r0)
    case (Inl e)
    with g0 m0 show ?thesis by (simp add: bee_processData_def watermark_def)
  next
    case (Inr t0)
    obtain totals latest s1 where loops:
      "process_kind processLocations (locations data)
         (process_kind processTodos (todos data)
           (process_kind processFacts (facts data)
             (process_kind processConversations (conversations data)
               ((no_counts, t0), s0)))) = ((totals, latest), s1)"
      by (metis surj_pair)
    have m1: "system_metadata s1 = system_metadata s"
      using bee_loops_metadata [of "locations data" "todos data" "facts data"
          "conversations data" "((no_counts, t0), s0)"] loops m0 by simp
    obtain r2 s2 where g2: "getLastSyncTime ''bee'' s1 = (r2, s2)"
      by (cases "getLastSyncTime ''bee'' s1")
    have m2: "system_metadata s2 = system_metadata s"
      using g2 m1 by (auto simp: getLastSyncTime_def select_metadata_def sent_def
          split: if_splits option.splits)
    show ?thesis
    proof (cases r2)
      case (Inl e)
      with g0 Inr loops g2 m2 show ?thesis by (simp add: bee_processData_def watermark_def)
    next
      case stored: (Inr stored)
      have st: "stored = Some (watermark ''bee'' s)"
      proof (cases "system_metadata s (sync_key ''bee'')")
        case None
        with g2 stored m1 show ?thesis
          by (auto simp: getLastSyncTime_def select_metadata_def watermark_def
              split: if_splits)
      next
        case (Some w)
        with g2 stored m1 show ?thesis
          by (auto simp: getLastSyncTime_def select_metadata_def watermark_def
              split: if_splits)
      qed
      show ?thesis
      proof (cases "date_gt latest stored")
        case False
        with g0 Inr loops g2 stored m2 show ?thesis
          by (auto simp: bee_processData_def watermark_def split: sum.splits prod.splits)
      next
        case True
        then obtain v where v: "latest = Some v" and gt: "v > watermark ''bee'' s"
          using st by (cases latest) auto
        with True g0 Inr loops g2 stored m2 show ?thesis
          by (auto simp: bee_processData_def watermark_def updateLastSyncTime_def
              upsert_metadata_def sent_def split: sum.splits prod.splits)
      qed
    qed
  qed
qed

text \<open>
  A sync that ends with a fetch error leaves the watermark as it was, for the Limitless
  connector (the Bee connector has no such run: its page loop catches the error).
\<close>

lemma limitless_sync_fetch_error_keeps_watermark:
  "fst (fetchData cfg api opts s) = Inl e \<Longrightarrow>
   watermark ''limitless'' (snd (limitless_sync cfg api opts s)) = watermark ''limitless'' s"
  by (simp add: limitless_sync_fetch_error fetchData_reads_only watermark_def)

text \<open>No call of \<open>updateDailyAggregation\<close> changes the table.\<close>

lemma updateDailyAggregation_never_writes:
  "updateDailyAggregation date sourceType itemCount tbl = Inr tbl1 \<Longrightarrow> tbl1 = tbl"
  by (auto simp: updateDailyAggregation_def DataProcessor_db_query_def
      split: if_splits option.splits sum.splits prod.splits)

end
